theory Spec2Isabelle
  imports Complex_Main
begin

section \<open>Python floats\<close>

text \<open>
  The program computes in Python \<^verbatim>\<open>float\<close>s, IEEE 754 binary64 numbers. A value is a finite
  number, an infinity (\<open>Inf True\<close> the positive one) or not-a-number. The sign of a zero is not
  kept: the operations below never tell the two zeros apart (a division by either raises).
\<close>

datatype doble = Fin real | Inf bool | NaN

text \<open>
  What the program can raise, and \<open>Complejo\<close> for the one place where Python goes on with a value
  this model does not follow: a negative base with a fractional exponent gives a complex number.
\<close>

datatype error = ZeroDivisionError | OverflowError | ValueError | Complejo | IndexError
  | UnboundLocalError | TypeError

definition bindE :: "error + 'a \<Rightarrow> ('a \<Rightarrow> error + 'b) \<Rightarrow> error + 'b" where
  "bindE m f = (case m of Inl e \<Rightarrow> Inl e | Inr x \<Rightarrow> f x)"

subsection \<open>Rounding\<close>

text \<open>The nearest integer, a tie going to the even one.\<close>

definition rint :: "real \<Rightarrow> int" where
  "rint x =
     (let f = \<lfloor>x\<rfloor> in
      if x - of_int f < 1 / 2 then f
      else if x - of_int f > 1 / 2 then f + 1
      else if even f then f else f + 1)"

text \<open>
  The binary exponent of a real number as binary64 stores it (\<open>-1022\<close> for the subnormal
  range), the spacing of the doubles around it, and the double nearest to it: a tie goes to the
  even significand, and a result of magnitude \<open>limite\<close> is an infinity.
\<close>

definition exponente :: "real \<Rightarrow> int" where
  "exponente x = max \<lfloor>log 2 \<bar>x\<bar>\<rfloor> (- 1022)"

definition cuanto :: "real \<Rightarrow> real" where
  "cuanto x = 2 powr (of_int (exponente x) - 52)"

definition limite :: real where
  "limite = 2 ^ 1024"

text \<open>
  The range in which rounding is accurate: from the least normal number up to the least magnitude
  that rounds to an infinity.
\<close>

definition normal_min :: real where
  "normal_min = 1 / 2 ^ 1022"


definition redondea :: "real \<Rightarrow> doble" where
  "redondea x =
     (if x = 0 then Fin 0
      else let y = of_int (rint (x / cuanto x)) * cuanto x in
           if limite \<le> \<bar>y\<bar> then Inf (0 < x) else Fin y)"

subsection \<open>Arithmetic and comparisons\<close>

text \<open>
  \<^verbatim>\<open>+\<close>, \<^verbatim>\<open>-\<close> and \<^verbatim>\<open>*\<close> never raise: a result too large is an infinity. The comparisons are
  false whenever an operand is not-a-number; \<open>igual\<close> is Python's \<^verbatim>\<open>==\<close>.
\<close>

instantiation doble :: "{plus, minus, uminus, times, ord}"
begin

definition plus_doble :: "doble \<Rightarrow> doble \<Rightarrow> doble" where
  "plus_doble a b =
     (case (a, b) of
        (Fin x, Fin y) \<Rightarrow> redondea (x + y)
      | (Fin x, Inf t) \<Rightarrow> Inf t
      | (Inf s, Fin y) \<Rightarrow> Inf s
      | (Inf s, Inf t) \<Rightarrow> (if s = t then Inf s else NaN)
      | _ \<Rightarrow> NaN)"

definition uminus_doble :: "doble \<Rightarrow> doble" where
  "uminus_doble a = (case a of Fin x \<Rightarrow> Fin (- x) | Inf s \<Rightarrow> Inf (\<not> s) | NaN \<Rightarrow> NaN)"

definition minus_doble :: "doble \<Rightarrow> doble \<Rightarrow> doble" where
  "minus_doble a b = a + (- b)"

definition times_doble :: "doble \<Rightarrow> doble \<Rightarrow> doble" where
  "times_doble a b =
     (case (a, b) of
        (Fin x, Fin y) \<Rightarrow> redondea (x * y)
      | (Fin x, Inf t) \<Rightarrow> (if x = 0 then NaN else Inf (t = (0 < x)))
      | (Inf s, Fin y) \<Rightarrow> (if y = 0 then NaN else Inf (s = (0 < y)))
      | (Inf s, Inf t) \<Rightarrow> Inf (s = t)
      | _ \<Rightarrow> NaN)"

definition less_doble :: "doble \<Rightarrow> doble \<Rightarrow> bool" where
  "less_doble a b =
     (case (a, b) of
        (Fin x, Fin y) \<Rightarrow> x < y
      | (Fin x, Inf t) \<Rightarrow> t
      | (Inf s, Fin y) \<Rightarrow> \<not> s
      | (Inf s, Inf t) \<Rightarrow> \<not> s \<and> t
      | _ \<Rightarrow> False)"

definition less_eq_doble :: "doble \<Rightarrow> doble \<Rightarrow> bool" where
  "less_eq_doble a b =
     (case (a, b) of
        (Fin x, Fin y) \<Rightarrow> x \<le> y
      | (Fin x, Inf t) \<Rightarrow> t
      | (Inf s, Fin y) \<Rightarrow> \<not> s
      | (Inf s, Inf t) \<Rightarrow> \<not> s \<or> t
      | _ \<Rightarrow> False)"

instance ..

end

definition igual :: "doble \<Rightarrow> doble \<Rightarrow> bool" where
  "igual a b = (a \<noteq> NaN \<and> b \<noteq> NaN \<and> a = b)"

text \<open>\<^verbatim>\<open>a / b\<close> raises on a zero divisor, whatever \<open>a\<close> is.\<close>

definition fdiv :: "doble \<Rightarrow> doble \<Rightarrow> error + doble" where
  "fdiv a b =
     (if b = Fin 0 then Inl ZeroDivisionError
      else Inr (case (a, b) of
        (Fin x, Fin y) \<Rightarrow> redondea (x / y)
      | (Fin x, Inf t) \<Rightarrow> Fin 0
      | (Inf s, Fin y) \<Rightarrow> Inf (s = (0 < y))
      | _ \<Rightarrow> NaN))"

text \<open>
  \<^verbatim>\<open>v ** w\<close> as CPython's \<^verbatim>\<open>float_pow\<close> decides it, case by case in its order. The last case
  is the call of the C library's \<^verbatim>\<open>pow\<close> on a positive finite base, taken here as correctly
  rounded: a result that rounds to an infinity raises \<^verbatim>\<open>OverflowError\<close>, one that rounds to zero
  is zero. A negative base with an odd integer exponent negates the result.
\<close>

definition impar :: "doble \<Rightarrow> bool" where
  "impar w = (case w of Fin y \<Rightarrow> (\<exists>k::int. y = of_int k \<and> odd k) | _ \<Rightarrow> False)"

definition entero :: "doble \<Rightarrow> bool" where
  "entero w = (case w of Fin y \<Rightarrow> (\<exists>k::int. y = of_int k) | _ \<Rightarrow> False)"

definition pow_c :: "real \<Rightarrow> real \<Rightarrow> error + doble" where
  "pow_c x y =
     (case redondea (x powr y) of
        Fin z \<Rightarrow> Inr (Fin z)
      | _ \<Rightarrow> Inl OverflowError)"

definition fpow :: "doble \<Rightarrow> doble \<Rightarrow> error + doble" where
  "fpow v w =
     (if w = Fin 0 then Inr (Fin 1)
      else if v = NaN then Inr NaN
      else if w = NaN then Inr (if v = Fin 1 then Fin 1 else NaN)
      else case w of
        Inf t \<Rightarrow>
          (if v = Fin 1 \<or> v = Fin (- 1) then Inr (Fin 1)
           else if t = (Fin 1 < v \<or> v < Fin (- 1)) then Inr (Inf True)
           else Inr (Fin 0))
      | Fin y \<Rightarrow>
          (case v of
             Inf s \<Rightarrow>
               (if 0 < y then Inr (if impar w then Inf s else Inf True) else Inr (Fin 0))
           | Fin x \<Rightarrow>
               (if x = 0 then (if y < 0 then Inl ZeroDivisionError else Inr (Fin 0))
                else if x < 0 \<and> \<not> entero w then Inl Complejo
                else if \<bar>x\<bar> = 1 then Inr (Fin (if x < 0 \<and> impar w then - 1 else 1))
                else bindE (pow_c \<bar>x\<bar> y)
                       (\<lambda>z. Inr (if x < 0 \<and> impar w then - z else z)))))"

text \<open>\<^verbatim>\<open>math.sqrt\<close>: a negative argument raises \<^verbatim>\<open>ValueError\<close>.\<close>

definition fsqrt :: "doble \<Rightarrow> error + doble" where
  "fsqrt a =
     (case a of
        Fin x \<Rightarrow> (if x < 0 then Inl ValueError else Inr (redondea (sqrt x)))
      | Inf s \<Rightarrow> (if s then Inr (Inf True) else Inl ValueError)
      | NaN \<Rightarrow> Inr NaN)"

section \<open>politropo.py\<close>



section \<open>transporte.py\<close>

definition n_mas_1 :: "doble \<Rightarrow> doble \<Rightarrow> doble \<Rightarrow> doble \<Rightarrow> error + doble" where
  "n_mas_1 P_i1 T_i1 dP_i1 dT_i1 =
     bindE (fdiv T_i1 P_i1) (\<lambda>a. bindE (fdiv dP_i1 dT_i1) (\<lambda>b. Inr (a * b)))"

section \<open>energia.py\<close>

text \<open>The labels \<^verbatim>\<open>'PP'\<close>, \<^verbatim>\<open>'CN'\<close> and \<^verbatim>\<open>'--'\<close>.\<close>

datatype etiqueta = PP | CN | NONE




text \<open>The assignment of \<^verbatim>\<open>E1\<close> and \<^verbatim>\<open>nu\<close> from a table row.\<close>

definition coeficientes :: "real option \<times> real \<Rightarrow> error + (doble \<times> doble)" where
  "coeficientes fila =
     (case fila of
        (None, nu) \<Rightarrow> Inr (Fin 0, redondea nu)
      | (Some e, nu) \<Rightarrow> bindE (fpow (Fin 10) (redondea e)) (\<lambda>E1. Inr (E1, redondea nu)))"




section \<open>primera\_derivada.py\<close>


section \<open>Loops and buffers\<close>

text \<open>
  A \<^verbatim>\<open>while\<close> loop whose body either goes on with a new state or leaves with a result. The
  body may itself not return (\<open>None\<close>) or raise (\<open>Inl\<close>); a loop that runs forever is \<open>None\<close>.
\<close>

datatype ('s, 'r) paso = Sigue 's | Sale 'r

partial_function (option) bucle ::
  "('s \<Rightarrow> (error + ('s, 'r) paso) option) \<Rightarrow> 's \<Rightarrow> (error + 'r) option"
where
  "bucle cuerpo s =
     (case cuerpo s of
        None \<Rightarrow> None
      | Some (Inl e) \<Rightarrow> Some (Inl e)
      | Some (Inr (Sale r)) \<Rightarrow> Some (Inr r)
      | Some (Inr (Sigue s')) \<Rightarrow> bucle cuerpo s')"

definition bindR :: "(error + 'a) option \<Rightarrow> ('a \<Rightarrow> (error + 'b) option) \<Rightarrow> (error + 'b) option" where
  "bindR m f = (case m of None \<Rightarrow> None | Some (Inl e) \<Rightarrow> Some (Inl e) | Some (Inr x) \<Rightarrow> f x)"

text \<open>
  A buffer \<^verbatim>\<open>np.zeros(n)\<close> is a function from indices to values together with its size \<open>n\<close>,
  which every write checks; \<open>lista n a\<close> is its content.
\<close>

type_synonym arr = "nat \<Rightarrow> doble"

definition ceros :: arr where
  "ceros = (\<lambda>_. Fin 0)"

definition lista :: "nat \<Rightarrow> arr \<Rightarrow> doble list" where
  "lista n a = map a [0..<n]"

text \<open>\<^verbatim>\<open>np.trim_zeros(a, trim='b')\<close>: the trailing elements equal to zero are dropped.\<close>

definition trim_zeros :: "doble list \<Rightarrow> doble list" where
  "trim_zeros xs = rev (dropWhile (\<lambda>x. x = Fin 0) (rev xs))"

section \<open>estrella.py: constants and phase 0\<close>

text \<open>The quantities \<^verbatim>\<open>star\<close> fixes before the first loop.\<close>

record ctes =
  c_M_tot :: doble
  c_X :: doble
  c_Y :: doble
  c_R_tot :: doble
  c_L_tot :: doble
  c_mu :: doble
  c_R_ini :: doble
  c_h :: doble
  c_A1 :: doble
  c_A2 :: doble

text \<open>The quotients \<^verbatim>\<open>(3/4)\<close> and \<^verbatim>\<open>(1/2)\<close> of \<^verbatim>\<open>int\<close> literals are the doubles \<open>0.75\<close> and \<open>0.5\<close>.\<close>

definition constantes ::
  "doble \<Rightarrow> doble \<Rightarrow> doble \<Rightarrow> doble \<Rightarrow> doble \<Rightarrow> doble \<Rightarrow> error + ctes"
where
  "constantes M_tot X Y R_tot L_tot num_capas =
     (let Z = Fin 1 - X - Y in
      bindE (fdiv (Fin 1) (Fin 2 * X + Fin (3 / 4) * Y + Fin (1 / 2) * Z)) (\<lambda>mu.
      let R_ini = redondea 0.9 * R_tot in
      bindE (fdiv (- R_ini) num_capas) (\<lambda>h.
      let A1 = redondea 1.9022 * mu * M_tot in
      bindE (fdiv M_tot (mu * Z * (Fin 1 + X) * L_tot)) (\<lambda>q.
      bindE (fsqrt q) (\<lambda>s.
        Inr \<lparr>c_M_tot = M_tot, c_X = X, c_Y = Y, c_R_tot = R_tot, c_L_tot = L_tot,
             c_mu = mu, c_R_ini = R_ini, c_h = h,
             c_A1 = A1, c_A2 = redondea 10.645 * s\<rparr>)))))"

text \<open>The buffers of phase 0 (each \<^verbatim>\<open>np.zeros(50)\<close>), the list \<^verbatim>\<open>Ciclo_0\<close> and the index \<^verbatim>\<open>i\<close>.\<close>

record capas0 =
  r_0 :: arr
  P_0 :: arr
  T_0 :: arr
  M_0 :: arr
  L_0 :: arr
  Ciclo_0 :: "etiqueta list"
  i_0 :: nat

definition capas0_0 :: capas0 where
  "capas0_0 = \<lparr>r_0 = ceros, P_0 = ceros, T_0 = ceros, M_0 = ceros, L_0 = ceros,
     Ciclo_0 = [], i_0 = 0\<rparr>"

text \<open>One pass of \<^verbatim>\<open>while loop1\<close> of phase 0.\<close>

definition paso_0 :: "ctes \<Rightarrow> capas0 \<Rightarrow> error + (capas0, capas0) paso" where
  "paso_0 c st =
     (let i = i_0 st;
          r_i = c_R_ini c - c_h c * Fin (real (i + 1)) in
      bindE (fdiv (Fin 1) r_i) (\<lambda>a. bindE (fdiv (Fin 1) (c_R_tot c)) (\<lambda>b.
      let T_i = c_A1 c * (a - b) in
      bindE (if T_i \<le> Fin 0 then Inr (Fin 0)
             else bindE (fpow T_i (redondea 4.25)) (\<lambda>p. Inr (c_A2 c * p))) (\<lambda>P_i.
        if c_R_tot c < r_i then Inr (Sale st)
        else if 50 \<le> i then Inl IndexError
        else Inr (Sigue (st\<lparr>r_0 := (r_0 st)(i := r_i), P_0 := (P_0 st)(i := P_i),
                T_0 := (T_0 st)(i := T_i), M_0 := (M_0 st)(i := c_M_tot c),
                L_0 := (L_0 st)(i := c_L_tot c), Ciclo_0 := Ciclo_0 st @ [NONE],
                i_0 := i + 1\<rparr>))))))"

definition fase_0 :: "ctes \<Rightarrow> (error + capas0) option" where
  "fase_0 c = bucle (\<lambda>s. Some (paso_0 c s)) capas0_0"

section \<open>estrella.py: the final table\<close>

text \<open>
  What the last section of \<^verbatim>\<open>star\<close> reads of phase A: the buffers (each \<^verbatim>\<open>np.zeros(200)\<close>),
  the list \<^verbatim>\<open>Ciclo_A\<close> and the index \<^verbatim>\<open>i_f\<close> of the last radiative layer; and of the last run of
  phase B: the arrays \<^verbatim>\<open>param[0]\<close> to \<^verbatim>\<open>param[4]\<close> (each \<^verbatim>\<open>np.zeros(200)\<close>) and \<^verbatim>\<open>Ciclo_B\<close>.
\<close>

record capasA =
  r_A :: arr
  P_A :: arr
  T_A :: arr
  M_A :: arr
  L_A :: arr
  Ciclo_A :: "etiqueta list"
  i_f :: nat

record capasB =
  r_B :: arr
  P_B :: arr
  T_B :: arr
  M_B :: arr
  L_B :: arr
  Ciclo_B :: "etiqueta list"

text \<open>The labels \<^verbatim>\<open>'RADIATIVO'\<close> and \<^verbatim>\<open>'CONVECTIVO'\<close>.\<close>

datatype transporte = RADIATIVO | CONVECTIVO

record agrupado =
  Capa :: "nat list"
  Transporte :: "transporte list"
  Ciclo :: "etiqueta list"
  Radio :: "doble list"
  Presion :: "doble list"
  Temperatura :: "doble list"
  Masa :: "doble list"
  Luminosidad :: "doble list"

text \<open>The slices of the three groups of buffers, as the last section of \<^verbatim>\<open>star\<close> takes them.\<close>

definition corte_B :: "arr \<Rightarrow> doble list" where
  "corte_B a = butlast (trim_zeros (lista 200 a))"

definition corte_A :: "nat \<Rightarrow> arr \<Rightarrow> doble list" where
  "corte_A f a = take (f + 1) (trim_zeros (lista 200 a))"

definition corte_0 :: "arr \<Rightarrow> doble list" where
  "corte_0 a = trim_zeros (lista 50 a)"

text \<open>
  The dictionary \<^verbatim>\<open>agrupado\<close>. \<^verbatim>\<open>np.round(x, 4)\<close> acts on each element of an array; what it
  does to one element is the parameter \<open>redondeo\<close>.
\<close>

definition resultado :: "(doble \<Rightarrow> doble) \<Rightarrow> capasB \<Rightarrow> capasA \<Rightarrow> capas0 \<Rightarrow> agrupado" where
  "resultado redondeo b a z =
     (let f = i_f a;
          r = map redondeo (corte_B (r_B b) @ rev (corte_A f (r_A a)) @ corte_0 (r_0 z));
          P = map redondeo (corte_B (P_B b) @ rev (corte_A f (P_A a)) @ corte_0 (P_0 z));
          T = map redondeo (corte_B (T_B b) @ rev (corte_A f (T_A a)) @ corte_0 (T_0 z));
          M = map redondeo (corte_B (M_B b) @ rev (corte_A f (M_A a)) @ corte_0 (M_0 z));
          L = map redondeo (corte_B (L_B b) @ rev (corte_A f (L_A a)) @ corte_0 (L_0 z));
          radiative = replicate (length (corte_0 (r_0 z)) + length (corte_A f (r_A a))) RADIATIVO;
          convective = replicate (length (corte_B (r_B b))) CONVECTIVO
      in \<lparr>Capa = [0..<length r],
          Transporte = convective @ radiative,
          Ciclo = butlast (Ciclo_B b) @ rev (take (f + 1) (Ciclo_A a)) @ Ciclo_0 z,
          Radio = r, Presion = P, Temperatura = T, Masa = M, Luminosidad = L\<rparr>)"

section \<open>Auxiliary notions\<close>


text \<open>Three small groups of buffers on which the final table is evaluated.\<close>

definition ejemplo_B :: capasB where
  "ejemplo_B = \<lparr>r_B = ceros(1 := Fin 1, 2 := Fin 2), P_B = ceros, T_B = ceros, M_B = ceros,
     L_B = ceros, Ciclo_B = [NONE, NONE, NONE]\<rparr>"

definition ejemplo_A :: capasA where
  "ejemplo_A = \<lparr>r_A = ceros(0 := Fin 9, 1 := Fin 8), P_A = ceros, T_A = ceros, M_A = ceros,
     L_A = ceros, Ciclo_A = [NONE, NONE], i_f = 0\<rparr>"

definition ejemplo_0 :: capas0 where
  "ejemplo_0 = \<lparr>r_0 = ceros(0 := Fin 10), P_0 = ceros, T_0 = ceros, M_0 = ceros,
     L_0 = ceros, Ciclo_0 = [NONE], i_0 = 1\<rparr>"

section \<open>Rounding to a double\<close>

lemma rint_eval: "\<bar>x - of_int m\<bar> < 1 / 2 \<Longrightarrow> rint x = m"
proof -
  assume a: "\<bar>x - of_int m\<bar> < 1 / 2"
  show ?thesis
  proof (cases "of_int m \<le> x")
    case True
    with a have "\<lfloor>x\<rfloor> = m" by (intro floor_unique) auto
    with a True show ?thesis by (simp add: rint_def Let_def)
  next
    case False
    with a have f: "\<lfloor>x\<rfloor> = m - 1" by (intro floor_unique) auto
    with a False have "x - of_int (m - 1) > 1 / 2" by auto
    with f show ?thesis by (simp add: rint_def Let_def)
  qed
qed

lemma rint_int [simp]: "rint (of_int k) = k"
  by (rule rint_eval) simp

lemma rint_error: "\<bar>of_int (rint x) - x\<bar> \<le> 1 / 2"
proof -
  have "of_int \<lfloor>x\<rfloor> \<le> x" "x < of_int \<lfloor>x\<rfloor> + 1" by linarith+
  then show ?thesis by (auto simp: rint_def Let_def)
qed

lemma exponente_eval:
  assumes "2 powr of_int e \<le> \<bar>x\<bar>" and "\<bar>x\<bar> < 2 powr (of_int e + 1)" and "- 1022 \<le> e"
  shows "exponente x = e"
proof -
  have pos: "0 < \<bar>x\<bar>" using assms(1) by (smt (verit) powr_gt_zero)
  have "of_int e \<le> log 2 \<bar>x\<bar>" using assms(1) pos by (simp add: le_log_iff)
  moreover have "log 2 \<bar>x\<bar> < of_int e + 1" using assms(2) pos by (simp add: log_less_iff)
  ultimately have "\<lfloor>log 2 \<bar>x\<bar>\<rfloor> = e" by (intro floor_unique) auto
  with assms(3) show ?thesis by (simp add: exponente_def)
qed

lemma exponente_sub:
  assumes "x \<noteq> 0" and "\<bar>x\<bar> < 2 powr (- 1021)"
  shows "exponente x = - 1022"
proof -
  have pos: "0 < \<bar>x\<bar>" using assms(1) by simp
  have "log 2 \<bar>x\<bar> < - 1021" using assms(2) pos by (simp add: log_less_iff)
  then have "\<lfloor>log 2 \<bar>x\<bar>\<rfloor> < - 1021" by linarith
  then show ?thesis by (simp add: exponente_def)
qed

lemma redondea_eval:
  assumes "2 powr of_int e \<le> \<bar>x\<bar>" and "\<bar>x\<bar> < 2 powr (of_int e + 1)" and "- 1022 \<le> e"
    and "\<bar>x / 2 powr (of_int e - 52) - of_int m\<bar> < 1 / 2"
    and "\<bar>real_of_int m * 2 powr (of_int e - 52)\<bar> < limite"
  shows "redondea x = Fin (of_int m * 2 powr (of_int e - 52))"
proof -
  have e: "exponente x = e" using assms(1-3) by (rule exponente_eval)
  have x: "x \<noteq> 0" using assms(1) by (smt (verit) powr_gt_zero)
  have "rint (x / 2 powr (of_int e - 52)) = m" using assms(4) by (rule rint_eval)
  with e x assms(5) show ?thesis by (simp add: redondea_def cuanto_def Let_def)
qed


lemma redondea_casos: "(\<exists>y. redondea x = Fin y \<and> \<bar>y\<bar> < limite) \<or> redondea x = Inf (0 < x)"
  by (auto simp: redondea_def Let_def limite_def)

lemma redondea_cero [simp]: "redondea 0 = Fin 0"
  by (simp add: redondea_def)

lemma exponente_cotas:
  assumes "x \<noteq> 0"
  shows "2 powr of_int (exponente x) \<le> max \<bar>x\<bar> normal_min"
    and "\<bar>x\<bar> < 2 powr (of_int (exponente x) + 1)"
proof -
  have pos: "0 < \<bar>x\<bar>" using assms by simp
  have a: "2 powr of_int \<lfloor>log 2 \<bar>x\<bar>\<rfloor> \<le> \<bar>x\<bar>"
    using pos by (metis (no_types) less_numeral_extra(1) numeral_One of_int_floor_le one_less_numeral_iff powr_le_iff semiring_norm(76))
  have b: "\<bar>x\<bar> < 2 powr (of_int \<lfloor>log 2 \<bar>x\<bar>\<rfloor> + 1)"
    using pos by (simp add: less_powr_iff)
  have n: "2 powr of_int (- 1022) = normal_min"
    by (simp add: normal_min_def powr_minus powr_realpow [symmetric] divide_simps)
  show "2 powr of_int (exponente x) \<le> max \<bar>x\<bar> normal_min"
    using a n by (auto simp: exponente_def max_def)
  have "\<lfloor>log 2 \<bar>x\<bar>\<rfloor> \<le> exponente x" by (simp add: exponente_def)
  then have "(2::real) powr (of_int \<lfloor>log 2 \<bar>x\<bar>\<rfloor> + 1) \<le> 2 powr (of_int (exponente x) + 1)"
    by simp
  with b show "\<bar>x\<bar> < 2 powr (of_int (exponente x) + 1)" by linarith
qed


lemma cuanto_pos: "0 < cuanto x"
  by (simp add: cuanto_def)

lemma redondea_dist:
  assumes "redondea x = Fin y"
  shows "\<bar>y - x\<bar> \<le> cuanto x / 2"
proof (cases "x = 0")
  case True
  with assms show ?thesis using cuanto_pos [of x] by (simp add: redondea_def)
next
  case False
  define u where "u = cuanto x"
  have u: "0 < u" by (simp add: u_def cuanto_pos)
  from assms False have y: "y = of_int (rint (x / u)) * u"
    by (simp add: redondea_def Let_def u_def split: if_splits)
  have "y - x = (of_int (rint (x / u)) - x / u) * u" using u by (simp add: y field_simps)
  then have "\<bar>y - x\<bar> = \<bar>of_int (rint (x / u)) - x / u\<bar> * u" using u by (simp add: abs_mult)
  also have "\<dots> \<le> (1 / 2) * u" using rint_error [of "x / u"] u by (intro mult_right_mono) auto
  finally show ?thesis by (simp add: u_def)
qed





lemma limite_powr: "limite = 2 powr 1024"
  using powr_realpow [of "2::real" 1024] by (simp add: limite_def)





lemma normal_min_powr: "normal_min = 2 powr (- 1022)"
  using powr_realpow [of "2::real" 1022] by (simp add: normal_min_def powr_minus divide_simps)

lemma redondea_exacto:
  assumes x: "x = of_int m * 2 powr of_int k" and m: "\<bar>m\<bar> < 2 ^ 53"
    and k1: "- 1074 \<le> k" and k2: "k \<le> 971"
  shows "redondea x = Fin x"
proof (cases "m = 0")
  case True
  with x show ?thesis by simp
next
  case False
  then have x0: "x \<noteq> 0" using x by simp
  define e where "e = exponente x"
  have mr: "\<bar>real_of_int m\<bar> < 2 ^ 53"
    using m by (metis of_int_abs of_int_less_iff of_int_numeral of_int_power)
  have ax: "\<bar>x\<bar> = \<bar>real_of_int m\<bar> * 2 powr of_int k" by (simp add: x abs_mult)
  have p53: "(2::real) ^ 53 = 2 powr 53" using powr_realpow [of "2::real" 53] by simp
  have "\<bar>x\<bar> < 2 ^ 53 * 2 powr of_int k" unfolding ax using mr by (intro mult_strict_right_mono) auto
  then have xlt: "\<bar>x\<bar> < 2 powr (53 + of_int k)" by (simp add: p53 powr_add)
  have j: "e \<le> k + 52"
  proof (cases "normal_min \<le> \<bar>x\<bar>")
    case True
    with exponente_cotas(1) [OF x0] have "2 powr of_int e \<le> \<bar>x\<bar>" by (simp add: e_def)
    with xlt have "2 powr of_int e < (2::real) powr (53 + of_int k)" by linarith
    then have "real_of_int e < 53 + of_int k" by (rule powr_less_cancel) simp
    then show ?thesis by linarith
  next
    case False
    then have "\<bar>x\<bar> < 2 powr (- 1022)" by (simp add: normal_min_powr)
    moreover have "(2::real) powr (- 1022) < 2 powr (- 1021)" by (subst powr_less_cancel_iff) auto
    ultimately have "\<bar>x\<bar> < 2 powr (- 1021)" by linarith
    with x0 have "e = - 1022" unfolding e_def by (rule exponente_sub)
    with k1 show ?thesis by simp
  qed
  define n where "n = nat (k + 52 - e)"
  have n: "of_int k = real_of_int e - 52 + real n" using j by (simp add: n_def)
  define u where "u = cuanto x"
  have u: "0 < u" by (simp add: u_def cuanto_pos)
  have c: "u = 2 powr (real_of_int e - 52)" by (simp add: u_def cuanto_def e_def)
  have xu: "x = of_int m * 2 powr (real n) * u" by (simp add: x c n powr_add)
  have "x / u = of_int m * 2 powr (real n)" by (subst xu) (use u in simp)
  also have "\<dots> = of_int (m * 2 ^ n)" by (simp add: powr_realpow)
  finally have q: "x / u = of_int (m * 2 ^ n)" .
  have r: "rint (x / u) = m * 2 ^ n" unfolding q by (rule rint_int)
  have "of_int (rint (x / u)) * u = x / u * u" by (simp only: r q [symmetric])
  also have "\<dots> = x" using u by simp
  finally have y: "of_int (rint (x / cuanto x)) * cuanto x = x" by (simp add: u_def)
  have "2 powr (53 + of_int k) \<le> (2::real) powr 1024" using k2 by (subst powr_le_cancel_iff) auto
  with xlt have "\<bar>x\<bar> < limite" by (simp add: limite_powr)
  with x0 y show ?thesis by (simp add: redondea_def Let_def)
qed

lemma redondea_entero:
  assumes "\<bar>m\<bar> < 2 ^ 53"
  shows "redondea (of_int m) = Fin (of_int m)"
  using redondea_exacto [of "of_int m" m 0] assms by simp

lemma redondea_diadico:
  assumes "\<bar>m\<bar> < 2 ^ 53" and "n \<le> 1074"
  shows "redondea (of_int m / 2 ^ n) = Fin (of_int m / 2 ^ n)"
proof -
  have "real_of_int m / 2 ^ n = of_int m * 2 powr of_int (- int n)"
    by (simp add: powr_minus powr_realpow divide_inverse)
  then show ?thesis using redondea_exacto [of "of_int m / 2 ^ n" m "- int n"] assms by simp
qed

lemma redondea_numeros [simp]:
  "redondea 1 = Fin 1" "redondea 2 = Fin 2" "redondea (- 2) = Fin (- 2)" "redondea 10 = Fin 10"
  "redondea 3 = Fin 3" "redondea (5 / 2) = Fin (5 / 2)"
  using redondea_entero [of 1] redondea_entero [of 2] redondea_entero [of "- 2"]
    redondea_entero [of 10] redondea_entero [of 3] redondea_diadico [of 5 1]
  by simp_all

section \<open>The polytrope\<close>

lemma bindE_Inr [simp]: "bindE (Inr x) f = f x"
  by (simp add: bindE_def)

lemma bindE_Inl [simp]: "bindE (Inl e) f = Inl e"
  by (simp add: bindE_def)

lemma bindE_Inr_iff: "bindE m f = Inr y \<longleftrightarrow> (\<exists>x. m = Inr x \<and> f x = Inr y)"
  by (cases m) simp_all













section \<open>The energy cycle and the luminosity derivative outside the tables\<close>

lemma por_cero [simp]: "Fin 0 * Fin y = Fin 0" "Fin y * Fin 0 = Fin 0"
  by (simp_all add: times_doble_def)










lemma fpow_exp_cero [simp]: "fpow v (Fin 0) = Inr (Fin 1)"
  by (simp add: fpow_def)

lemma coeficientes_fuera [simp]: "coeficientes (None, 0) = Inr (Fin 0, Fin 0)"
  by (simp add: coeficientes_def)



lemma menos_dos [simp]: "Fin 0 - Fin 2 = Fin (- 2)"
  by (simp add: minus_doble_def uminus_doble_def plus_doble_def)










section \<open>The final table\<close>

lemma dropWhile_zeros:
  "dropWhile (\<lambda>x. x = Fin 0) (replicate m (Fin 0) @ ys) = dropWhile (\<lambda>x. x = Fin 0) ys"
  by (induction m) simp_all

lemma trim_zeros_append_zeros: "trim_zeros (xs @ replicate m (Fin 0)) = trim_zeros xs"
  by (simp add: trim_zeros_def dropWhile_zeros)

lemma trim_zeros_last: "xs = [] \<or> last xs \<noteq> Fin 0 \<Longrightarrow> trim_zeros xs = xs"
  by (cases xs rule: rev_cases) (simp_all add: trim_zeros_def)

lemma length_lista [simp]: "length (lista n a) = n"
  by (simp add: lista_def)

lemma lista_split: "k \<le> n \<Longrightarrow> lista n a = lista k a @ map a [k..<n]"
proof -
  assume "k \<le> n"
  then obtain m where n: "n = k + m" by (auto simp: le_iff_add)
  have "[0..<k + m] = [0..<k] @ [k..<k + m]" by (rule upt_add_eq_append) simp
  then show ?thesis unfolding lista_def n by (simp only: map_append)
qed

lemma trim_zeros_lista:
  assumes "k \<le> n" and "\<And>j. k \<le> j \<Longrightarrow> j < n \<Longrightarrow> a j = Fin 0" and "k = 0 \<or> a (k - 1) \<noteq> Fin 0"
  shows "trim_zeros (lista n a) = lista k a"
proof -
  have "map a [k..<n] = replicate (n - k) (Fin 0)"
    using assms(2) by (auto intro!: nth_equalityI)
  with lista_split [OF assms(1), of a]
  have "trim_zeros (lista n a) = trim_zeros (lista k a)"
    by (simp add: trim_zeros_append_zeros)
  moreover have "lista k a = [] \<or> last (lista k a) \<noteq> Fin 0"
    using assms(3) by (cases k) (simp_all add: lista_def)
  ultimately show ?thesis by (simp add: trim_zeros_last)
qed

lemma Transporte_forma:
  "Transporte (resultado redondeo b a z) =
     replicate (length (corte_B (r_B b))) CONVECTIVO
     @ replicate (length (corte_0 (r_0 z)) + length (corte_A (i_f a) (r_A a))) RADIATIVO"
  by (simp add: resultado_def Let_def)

lemma dos_tramos:
  assumes "i < j" and "j < m + n" and "(replicate m CONVECTIVO @ replicate n RADIATIVO) ! i = RADIATIVO"
  shows "(replicate m CONVECTIVO @ replicate n RADIATIVO) ! j = RADIATIVO"
proof -
  have "\<not> i < m"
  proof
    assume "i < m"
    then have "(replicate m CONVECTIVO @ replicate n RADIATIVO) ! i = CONVECTIVO"
      by (simp add: nth_append)
    with assms(3) show False by simp
  qed
  with assms(1) have "\<not> j < m" by simp
  moreover from this assms(2) have "j - m < n" by simp
  ultimately show ?thesis by (simp add: nth_append)
qed

text \<open>
  C8 (the transport label changes at most once): in the table that the last section of \<^verbatim>\<open>star\<close>
  builds, ordered from the centre to the surface, whatever the buffers hold and whatever
  \<^verbatim>\<open>np.round\<close> does to an element, a layer after a layer labelled \<^verbatim>\<open>'RADIATIVO'\<close> is labelled
  \<^verbatim>\<open>'RADIATIVO'\<close> too. So the label changes at most once along the table, and then from the
  convective label (centre) to the radiative one (surface).
\<close>

theorem transporte_un_cambio:
  "i < j \<Longrightarrow> j < length (Transporte (resultado redondeo b a z)) \<Longrightarrow>
   Transporte (resultado redondeo b a z) ! i = RADIATIVO \<Longrightarrow>
   Transporte (resultado redondeo b a z) ! j = RADIATIVO"
  unfolding Transporte_forma by (rule dos_tramos) simp_all


lemma length_trim_zeros_lista:
  assumes "k \<le> n" and "\<And>j. k \<le> j \<Longrightarrow> j < n \<Longrightarrow> a j = Fin 0" and "k = 0 \<or> a (k - 1) \<noteq> Fin 0"
  shows "length (trim_zeros (lista n a)) = k"
  using trim_zeros_lista [of k n a] assms by simp

lemma ejemplo_cortes:
  "length (corte_B (r_B ejemplo_B)) = 2"
  "length (corte_A (i_f ejemplo_A) (r_A ejemplo_A)) = 1"
  "length (corte_0 (r_0 ejemplo_0)) = 1"
proof -
  have "length (trim_zeros (lista 200 (r_B ejemplo_B))) = 3"
    by (rule length_trim_zeros_lista) (simp_all add: ejemplo_B_def ceros_def)
  then show "length (corte_B (r_B ejemplo_B)) = 2" by (simp add: corte_B_def)
  have "length (trim_zeros (lista 200 (r_A ejemplo_A))) = 2"
    by (rule length_trim_zeros_lista) (simp_all add: ejemplo_A_def ceros_def)
  then show "length (corte_A (i_f ejemplo_A) (r_A ejemplo_A)) = 1"
    by (simp add: corte_A_def ejemplo_A_def)
  have "length (trim_zeros (lista 50 (r_0 ejemplo_0))) = 1"
    by (rule length_trim_zeros_lista) (simp_all add: ejemplo_0_def ceros_def)
  then show "length (corte_0 (r_0 ejemplo_0)) = 1" by (simp add: corte_0_def)
qed

text \<open>A table with two convective layers followed by two radiative ones.\<close>

theorem transporte_un_cambio_witness:
  "(2::nat) < 3 \<and> 3 < length (Transporte (resultado id ejemplo_B ejemplo_A ejemplo_0))
   \<and> Transporte (resultado id ejemplo_B ejemplo_A ejemplo_0) ! 2 = RADIATIVO
   \<and> Transporte (resultado id ejemplo_B ejemplo_A ejemplo_0) ! 3 = RADIATIVO
   \<and> Transporte (resultado id ejemplo_B ejemplo_A ejemplo_0)
       = [CONVECTIVO, CONVECTIVO, RADIATIVO, RADIATIVO]"
proof -
  have f: "Transporte (resultado id ejemplo_B ejemplo_A ejemplo_0)
       = [CONVECTIVO, CONVECTIVO, RADIATIVO, RADIATIVO]"
    by (simp add: Transporte_forma ejemplo_cortes numeral_2_eq_2)
  from transporte_un_cambio [of 2 3 id ejemplo_B ejemplo_A ejemplo_0] f
  show ?thesis by simp
qed


end
